theory Spec2Isabelle
  imports Complex_Main "HOL-Library.Char_ord" "HOL-Library.List_Lexorder"
begin

section \<open>Strings as the training pipeline uses them\<close>

text \<open>
  Directory and file names are strings of bytes, the UTF-8 form of Python's
  \<^verbatim>\<open>str\<close>: splitting at \<^verbatim>\<open>'_'\<close>, replacing \<^verbatim>\<open>'-'\<close>, testing a
  suffix and sorting give the same results on the bytes as on the code points. The three
  string methods that \<^verbatim>\<open>train_model\<close> calls on a directory name are
  \<^verbatim>\<open>split('_')\<close>, \<^verbatim>\<open>replace('-', ' ')\<close> and \<^verbatim>\<open>title()\<close>; on a
  file name it calls \<^verbatim>\<open>lower()\<close> and \<^verbatim>\<open>endswith\<close>.
  \<^verbatim>\<open>str.title()\<close> depends on the Unicode character database, which is no part of
  the module: the parser takes it as a parameter. Of \<^verbatim>\<open>str.lower()\<close> the module
  observes only whether the result ends in one of four ASCII extensions, which is decided
  by the ASCII letters alone.
\<close>

definition lowers :: string where
  "lowers = ''abcdefghijklmnopqrstuvwxyz''"

definition uppers :: string where
  "uppers = ''ABCDEFGHIJKLMNOPQRSTUVWXYZ''"

definition is_lower :: "char \<Rightarrow> bool" where
  "is_lower c = (c \<in> set lowers)"

definition is_upper :: "char \<Rightarrow> bool" where
  "is_upper c = (c \<in> set uppers)"

definition to_upper :: "char \<Rightarrow> char" where
  "to_upper c = (case map_of (zip lowers uppers) c of Some u \<Rightarrow> u | None \<Rightarrow> c)"

definition to_lower :: "char \<Rightarrow> char" where
  "to_lower c = (case map_of (zip uppers lowers) c of Some l \<Rightarrow> l | None \<Rightarrow> c)"

text \<open>\<^verbatim>\<open>str.lower()\<close>.\<close>

definition lower :: "string \<Rightarrow> string" where
  "lower s = map to_lower s"

text \<open>
  \<^verbatim>\<open>str.title()\<close> on ASCII strings, where the cased characters are the 52 letters:
  a letter is upper-cased when the character before it is not cased, and lower-cased
  otherwise. The flag is Python's \<^verbatim>\<open>previous_is_cased\<close>. The example folders
  below have ASCII names and are parsed with this function.
\<close>

fun ascii_title_from :: "bool \<Rightarrow> string \<Rightarrow> string" where
  "ascii_title_from previous_is_cased [] = []"
| "ascii_title_from previous_is_cased (c # cs) =
     (if is_lower c then
        (if previous_is_cased then c else to_upper c) # ascii_title_from True cs
      else if is_upper c then
        (if previous_is_cased then to_lower c else c) # ascii_title_from True cs
      else c # ascii_title_from False cs)"

definition ascii_title :: "string \<Rightarrow> string" where
  "ascii_title s = ascii_title_from False s"

text \<open>\<^verbatim>\<open>str.replace(old, new)\<close> for single characters.\<close>

definition replace_char :: "char \<Rightarrow> char \<Rightarrow> string \<Rightarrow> string" where
  "replace_char old new s = map (\<lambda>c. if c = old then new else c) s"

text \<open>
  \<^verbatim>\<open>str.split(sep)\<close> for a one-character separator: the result always has at
  least one part, and \<open>n\<close> separators give \<open>n + 1\<close> parts.
\<close>

fun split_sep :: "char \<Rightarrow> string \<Rightarrow> string list" where
  "split_sep sep [] = [[]]"
| "split_sep sep (c # cs) =
     (let r = split_sep sep cs
      in if c = sep then [] # r else (c # hd r) # tl r)"

text \<open>\<^verbatim>\<open>str.endswith(suffix)\<close> and its tuple form.\<close>

definition endswith :: "string \<Rightarrow> string \<Rightarrow> bool" where
  "endswith s e = (length e \<le> length s \<and> drop (length s - length e) s = e)"

definition endswith_any :: "string \<Rightarrow> string list \<Rightarrow> bool" where
  "endswith_any s es = list_ex (endswith s) es"

section \<open>The identity registry\<close>

record identity =
  name :: string
  roll_no :: string

text \<open>
  \<^verbatim>\<open>labels_map\<close> is a Python dict from label to identity. Its iteration order is
  its insertion order and the lookup loop of \<^verbatim>\<open>train_model\<close> stops at the first
  match, so it is an association list; \<^verbatim>\<open>labels_map[k] = v\<close> replaces the value
  of an existing key in place and appends a new key at the end.
\<close>

type_synonym registry = "(int \<times> identity) list"

fun dict_set :: "int \<Rightarrow> identity \<Rightarrow> registry \<Rightarrow> registry" where
  "dict_set k v [] = [(k, v)]"
| "dict_set k v (p # ps) = (if fst p = k then (k, v) # ps else p # dict_set k v ps)"

definition dict_keys :: "registry \<Rightarrow> int list" where
  "dict_keys m = map fst m"

definition dict_get :: "registry \<Rightarrow> int \<Rightarrow> identity option" where
  "dict_get m k = map_of m k"

text \<open>
  Lines 89 to 91 of \<^verbatim>\<open>backend_app.py\<close>, with \<^verbatim>\<open>str.title\<close> as the
  parameter \<open>str_title\<close>:
  \<^verbatim>\<open>
  parts = dir_name.split('_')
  name = parts[0].replace('-', ' ').title()
  roll_no = parts[1] if len(parts) > 1 else ""
  \<close>
\<close>

definition parse_dir_name :: "(string \<Rightarrow> string) \<Rightarrow> string \<Rightarrow> identity" where
  "parse_dir_name str_title dir_name =
     (let parts = split_sep CHR ''_'' dir_name
      in \<lparr> name = str_title (replace_char CHR ''-'' CHR '' '' (parts ! 0)),
           roll_no = (if length parts > 1 then parts ! 1 else '''') \<rparr>)"

text \<open>
  Lines 93 to 104: the linear search for an entry with the same name and roll number, and
  the allocation from \<^verbatim>\<open>current_id\<close> when there is none.
  \<^verbatim>\<open>
  found_label = None
  for label_id, info in labels_map.items():
      if info['name'] == name and info['roll_no'] == roll_no:
          found_label = label_id
          break
  if found_label is None:
      label_id = current_id
      labels_map[label_id] = {'name': name, 'roll_no': roll_no}
      current_id += 1
  else:
      label_id = found_label
  \<close>
\<close>

definition find_label :: "registry \<Rightarrow> identity \<Rightarrow> int option" where
  "find_label m who =
     map_option fst (find (\<lambda>(label_id, info). name info = name who \<and> roll_no info = roll_no who) m)"

definition resolve_label :: "identity \<Rightarrow> registry \<times> int \<Rightarrow> int \<times> registry \<times> int" where
  "resolve_label who st =
     (case st of (m, current_id) \<Rightarrow>
        (case find_label m who of
           None \<Rightarrow> (current_id, dict_set current_id who m, current_id + 1)
         | Some found_label \<Rightarrow> (found_label, m, current_id)))"

section \<open>The training corpus and the detector\<close>

text \<open>
  A grayscale image is a matrix of pixel values. A bounding box is the tuple
  \<^verbatim>\<open>(x, y, w, h)\<close> of the detector. The crop
  \<^verbatim>\<open>cv2.resize(img[y:y+h, x:x+w], (100, 100))\<close> is a function of the image and
  the box alone, so a sample is recorded as that pair.
\<close>

type_synonym image = "nat list list"

type_synonym box = "int \<times> int \<times> int \<times> int"

type_synonym sample = "image \<times> box"

text \<open>
  The directory tree under \<^verbatim>\<open>KNOWN_FACES_TRAINING_DIR\<close>. A file carries what
  \<^verbatim>\<open>cv2.imread(path, cv2.IMREAD_GRAYSCALE)\<close> returns for it: \<open>None\<close> when it
  cannot be read as an image. The children of a folder are in \<^verbatim>\<open>os.listdir\<close>
  order.
\<close>

datatype node = File string "image option" | Folder string "node list"

fun node_name :: "node \<Rightarrow> string" where
  "node_name (File n d) = n"
| "node_name (Folder n cs) = n"

fun imread :: "node \<Rightarrow> image option" where
  "imread (File n d) = d"
| "imread (Folder n cs) = None"

fun subfolders :: "node list \<Rightarrow> (string \<times> node list) list" where
  "subfolders [] = []"
| "subfolders (File n d # cs) = subfolders cs"
| "subfolders (Folder n ds # cs) = (n, ds) # subfolders cs"

lemma subfolders_smaller:
  "(n, ds) \<in> set (subfolders cs) \<Longrightarrow> size_list size ds < size_list size cs"
  by (induction cs rule: subfolders.induct) auto

text \<open>
  Lines 86 to 88: \<^verbatim>\<open>os.walk\<close> visits the tree top down; at each directory the
  loop sorts \<^verbatim>\<open>dirs\<close> in place and handles every subdirectory, and the walk then
  descends into the subdirectories in that sorted order. \<open>os_walk_dirs cs\<close> is the
  sequence of \<^verbatim>\<open>(dir_name, os.listdir(path))\<close> pairs the inner loop body sees, for
  a training directory whose children are \<open>cs\<close>. The body does not touch the file
  system, so the sequence does not depend on what the body does.
\<close>

function os_walk_dirs :: "node list \<Rightarrow> (string \<times> node list) list" where
  "os_walk_dirs cs =
     (let dirs = sort_key fst (subfolders cs)
      in dirs @ concat (map (\<lambda>d. os_walk_dirs (snd d)) dirs))"
  by pat_completeness auto
termination
proof (relation "measure (size_list size)")
  show "wf (measure (size_list (size :: node \<Rightarrow> nat)))"
    by simp
next
  fix cs :: "node list" and dirs :: "(string \<times> node list) list" and d
  assume dirs: "dirs = sort_key fst (subfolders cs)" and d: "d \<in> set dirs"
  obtain n ds where nds: "d = (n, ds)"
    by (cases d)
  from dirs d nds have "(n, ds) \<in> set (subfolders cs)"
    by simp
  then have "size_list size ds < size_list size cs"
    by (rule subfolders_smaller)
  with nds show "(snd d, cs) \<in> measure (size_list size)"
    by simp
qed

declare os_walk_dirs.simps [simp del]

section \<open>Logging\<close>

text \<open>One constructor for each message the module logs, with the values it formats.\<close>

datatype log_record =
    ScanningTrainingDir
  | TrainingDirNotFound
  | DetectorNotLoaded
  | Processing string string int
  | Skipping string nat
  | CouldNotRead string
  | NoValidFaces
  | TrainingWith nat nat
  | TrainingComplete
  | TrainingError
  | LoadedExisting int
  | ErrorLoadingModel
  | UnexpectedLoadError
  | NoExistingModel
  | AttendanceMarked string string string
  | ErrorWritingLog
  | ScanRequest
  | CouldNotDecode
  | ScanError

datatype level = INFO | WARNING | ERROR

fun level_of :: "log_record \<Rightarrow> level" where
  "level_of TrainingDirNotFound = ERROR"
| "level_of DetectorNotLoaded = ERROR"
| "level_of (Skipping f n) = WARNING"
| "level_of (CouldNotRead f) = WARNING"
| "level_of NoValidFaces = WARNING"
| "level_of TrainingError = ERROR"
| "level_of ErrorLoadingModel = ERROR"
| "level_of UnexpectedLoadError = ERROR"
| "level_of ErrorWritingLog = ERROR"
| "level_of CouldNotDecode = ERROR"
| "level_of ScanError = ERROR"
| "level_of r = INFO"

section \<open>The training loop\<close>

text \<open>
  What the loop of \<^verbatim>\<open>train_model\<close> reads and writes: the global
  \<^verbatim>\<open>labels_map\<close> (mutated in place), the locals \<^verbatim>\<open>current_id\<close>,
  \<^verbatim>\<open>images\<close> and \<^verbatim>\<open>labels\<close>, and the log.
\<close>

record train_acc =
  reg :: registry
  current_id :: int
  images :: "sample list"
  labels :: "int list"
  acc_log :: "log_record list"

definition image_extensions :: "string list" where
  "image_extensions = [''.png'', ''.jpg'', ''.jpeg'', ''.gif'']"

text \<open>Lines 110 to 124, the body of the loop over \<^verbatim>\<open>os.listdir(path)\<close>.\<close>

definition process_file :: "(image \<Rightarrow> box list) \<Rightarrow> int \<Rightarrow> train_acc \<Rightarrow> node \<Rightarrow> train_acc" where
  "process_file detect label_id acc child =
     (let file_name = node_name child
      in if endswith_any (lower file_name) image_extensions then
           (case imread child of
              Some img \<Rightarrow>
                (let detected_faces = detect img
                 in if length detected_faces = 1 then
                      acc\<lparr> images := images acc @ [(img, detected_faces ! 0)],
                           labels := labels acc @ [label_id] \<rparr>
                    else
                      acc\<lparr> acc_log := acc_log acc @ [Skipping file_name (length detected_faces)] \<rparr>)
            | None \<Rightarrow> acc\<lparr> acc_log := acc_log acc @ [CouldNotRead file_name] \<rparr>)
         else acc)"

text \<open>Lines 89 to 124, the body of the loop over \<^verbatim>\<open>dirs\<close>.\<close>

definition process_group ::
  "(string \<Rightarrow> string) \<Rightarrow> (image \<Rightarrow> box list) \<Rightarrow> train_acc \<Rightarrow> string \<times> node list
     \<Rightarrow> train_acc" where
  "process_group str_title detect acc d =
     (case d of (dir_name, listing) \<Rightarrow>
        (let who = parse_dir_name str_title dir_name
         in case resolve_label who (reg acc, current_id acc) of
              (label_id, m, next_id) \<Rightarrow>
                foldl (process_file detect label_id)
                  (acc\<lparr> reg := m, current_id := next_id,
                        acc_log := acc_log acc @ [Processing (name who) (roll_no who) label_id] \<rparr>)
                  listing))"

section \<open>The global state and the files\<close>

text \<open>
  A persisted file either holds what was written to it or cannot be parsed.
\<close>

datatype 'a file_content = Corrupt | Content 'a

text \<open>
  A \<^verbatim>\<open>datetime\<close> as the module observes it: the two \<^verbatim>\<open>strftime\<close> renderings
  and its position on the time line in microseconds (the unit of \<^verbatim>\<open>timedelta\<close>).
\<close>

record datetime =
  ymd :: string
  hms :: string
  micros :: int

datatype csv_line = Header | Row string string string string

text \<open>
  The module's globals and the three files it owns. \<open>face_recognizer\<close> holds the
  images and labels the recognizer was last trained on; it is empty for a recognizer that
  was never trained. \<open>None\<close> is a file that does not exist.
\<close>

record world =
  labels_map :: registry
  next_label_id :: int
  face_recognizer :: "(sample \<times> int) list"
  attendance_logged_today :: "string \<rightharpoonup> datetime"
  model_file :: "(sample \<times> int) list file_content option"
  labels_file :: "registry file_content option"
  attendance_file :: "csv_line list option"
  logging :: "log_record list"

definition log_to :: "log_record \<Rightarrow> world \<Rightarrow> world" where
  "log_to r w = w\<lparr> logging := logging w @ [r] \<rparr>"

section \<open>train_model\<close>

text \<open>
  What a call of \<^verbatim>\<open>train_model\<close> finds outside the module's state: whether the
  training directory exists and what it contains, what \<^verbatim>\<open>str.title\<close> makes of a
  string, whether the cascade was loaded, what the detector returns for an image (\<^verbatim>\<open>detectMultiScale(img, scaleFactor=1.1,
  minNeighbors=5)\<close>), and whether \<^verbatim>\<open>face_recognizer.train\<close>,
  \<^verbatim>\<open>face_recognizer.write\<close> and \<^verbatim>\<open>np.save\<close> raise. A call that
  raises is taken to leave its target as it was (\<^verbatim>\<open>train\<close> validates its
  arguments before it discards the previous training).
\<close>

record train_env =
  dir_exists :: bool
  corpus :: "node list"
  str_title :: "string \<Rightarrow> string"
  detector_empty :: bool
  detect :: "image \<Rightarrow> box list"
  train_raises :: bool
  write_raises :: bool
  save_raises :: bool

text \<open>Lines 86 to 124: the walk over the corpus, from the state at entry.\<close>

definition scan_corpus :: "train_env \<Rightarrow> world \<Rightarrow> train_acc" where
  "scan_corpus env w =
     foldl (process_group (str_title env) (detect env))
       \<lparr> reg = labels_map w, current_id = next_label_id w, images = [], labels = [],
         acc_log = logging w \<rparr>
       (os_walk_dirs (corpus env))"

text \<open>
  Lines 67 to 140. The result is the state after the call and the value returned.
\<close>

definition train_model :: "train_env \<Rightarrow> world \<Rightarrow> world \<times> bool" where
  "train_model env w =
     (let w0 = log_to ScanningTrainingDir w
      in if \<not> dir_exists env then (log_to TrainingDirNotFound w0, False)
         else if detector_empty env then (log_to DetectorNotLoaded w0, False)
         else
           (let acc = scan_corpus env w0;
                w1 = w0\<lparr> labels_map := reg acc, logging := acc_log acc \<rparr>
            in if images acc = [] then (log_to NoValidFaces w1, False)
               else
                 (let w2 = log_to (TrainingWith (length (images acc))
                                      (card (set (labels acc)))) w1
                  in if train_raises env then (log_to TrainingError w2, False)
                     else
                       (let w3 = w2\<lparr> face_recognizer := zip (images acc) (labels acc) \<rparr>
                        in if write_raises env then (log_to TrainingError w3, False)
                           else
                             (let w4 = w3\<lparr> model_file := Some (Content (face_recognizer w3)) \<rparr>
                              in if save_raises env then (log_to TrainingError w4, False)
                                 else
                                   (log_to TrainingComplete
                                      (w4\<lparr> labels_file := Some (Content (labels_map w4)),
                                           next_label_id := current_id acc \<rparr>),
                                    True))))))"

section \<open>load_or_train_model\<close>

text \<open>Line 54: \<^verbatim>\<open>max(labels_map.keys()) + 1 if labels_map else 0\<close>.\<close>

definition next_after :: "registry \<Rightarrow> int" where
  "next_after m = (if m \<noteq> [] then Max (set (dict_keys m)) + 1 else 0)"

text \<open>
  Lines 42 to 65. \<^verbatim>\<open>face_recognizer.read\<close> raises \<^verbatim>\<open>cv2.error\<close> on a
  model file it cannot parse, and \<^verbatim>\<open>np.load\<close> raises on a labels file it cannot
  parse; the recognizer has been loaded by then.
\<close>

definition load_or_train_model :: "train_env \<Rightarrow> world \<Rightarrow> world \<times> bool" where
  "load_or_train_model env w =
     (case (model_file w, labels_file w) of
        (Some model, Some labels_data) \<Rightarrow>
          (case model of
             Corrupt \<Rightarrow> train_model env (log_to ErrorLoadingModel w)
           | Content trained \<Rightarrow>
               (let w1 = w\<lparr> face_recognizer := trained \<rparr>
                in case labels_data of
                     Corrupt \<Rightarrow> train_model env (log_to UnexpectedLoadError w1)
                   | Content loaded_labels_data \<Rightarrow>
                       (let w2 = w1\<lparr> labels_map := loaded_labels_data,
                                     next_label_id := next_after loaded_labels_data \<rparr>
                        in (log_to (LoadedExisting (next_label_id w2)) w2, True))))
      | _ \<Rightarrow> train_model env (log_to NoExistingModel w))"

section \<open>log_attendance\<close>

definition min_log_interval_seconds :: int where
  "min_log_interval_seconds = 10"

text \<open>
  What a call of \<^verbatim>\<open>log_attendance\<close> finds outside the module's state: the clock,
  and whether writing the header or appending the entry raises. A write that raises is
  taken to leave the file as it was.
\<close>

record att_env =
  now :: datetime
  header_raises :: bool
  append_raises :: bool

text \<open>Line 148: \<^verbatim>\<open>f"{name}_{roll_no}_{today_date}"\<close>.\<close>

definition log_key :: "string \<Rightarrow> string \<Rightarrow> string \<Rightarrow> string" where
  "log_key nm roll today_date = nm @ ''_'' @ roll @ ''_'' @ today_date"

text \<open>
  Lines 151 and 152: \<^verbatim>\<open>total_seconds()\<close> of the difference exceeds the interval
  exactly when the difference in microseconds exceeds a million times the interval.
\<close>

definition interval_elapsed :: "datetime \<Rightarrow> datetime option \<Rightarrow> bool" where
  "interval_elapsed current_time_dt last_logged_dt =
     (case last_logged_dt of
        None \<Rightarrow> True
      | Some t \<Rightarrow> micros current_time_dt - micros t > min_log_interval_seconds * 1000000)"

text \<open>Lines 142 to 168.\<close>

definition log_attendance :: "att_env \<Rightarrow> string \<Rightarrow> string \<Rightarrow> world \<Rightarrow> world \<times> bool" where
  "log_attendance env nm roll w =
     (let current_time_dt = now env;
          today_date = ymd current_time_dt;
          key = log_key nm roll today_date;
          last_logged_dt = attendance_logged_today w key
      in if interval_elapsed current_time_dt last_logged_dt then
           (let log_entry = Row today_date (hms current_time_dt) nm roll
            in if attendance_file w = None \<and> header_raises env then
                 (log_to ErrorWritingLog w, False)
               else
                 (let w1 = (if attendance_file w = None
                            then w\<lparr> attendance_file := Some [Header] \<rparr> else w)
                  in if append_raises env then (log_to ErrorWritingLog w1, False)
                     else
                       (log_to (AttendanceMarked nm roll (hms current_time_dt)) w1
                          \<lparr> attendance_file :=
                              Some (case attendance_file w1 of None \<Rightarrow> [log_entry]
                                    | Some ls \<Rightarrow> ls @ [log_entry]),
                            attendance_logged_today :=
                              (attendance_logged_today w1)(key \<mapsto> current_time_dt) \<rparr>,
                        True)))
         else (w, False))"

section \<open>scan_image_endpoint\<close>

text \<open>
  What \<^verbatim>\<open>cv2.imdecode\<close> makes of the uploaded bytes: it raises on an empty buffer,
  returns \<^verbatim>\<open>None\<close> for bytes that are no image, and a frame otherwise. The frame
  is carried as \<^verbatim>\<open>gray_frame\<close>, its \<^verbatim>\<open>cv2.cvtColor\<close> conversion, the
  only form the endpoint goes on to use.
\<close>

datatype decoded = DecodeRaises | NotAnImage | Frame image

text \<open>
  The Python value of \<^verbatim>\<open>face_detector.detectMultiScale(...)\<close>. The OpenCV
  binding converts the vector of rectangles it found to an \<open>n \<times> 4\<close> numpy array, and
  an empty vector to the empty tuple \<^verbatim>\<open>()\<close>.
\<close>

datatype faces_value = EmptyTuple | NdArray "box list"

definition detectMultiScale_value :: "box list \<Rightarrow> faces_value" where
  "detectMultiScale_value found = (if found = [] then EmptyTuple else NdArray found)"

datatype py_exception = AttributeError | Cv2Error

text \<open>
  \<^verbatim>\<open>faces.any()\<close>: a numpy array has the method, and it tells whether some element
  is not zero; a tuple has no attribute \<^verbatim>\<open>any\<close>.
\<close>

fun faces_any :: "faces_value \<Rightarrow> py_exception + bool" where
  "faces_any EmptyTuple = Inl AttributeError"
| "faces_any (NdArray rows) =
     Inr (list_ex (\<lambda>(x, y, w, h). x \<noteq> 0 \<or> y \<noteq> 0 \<or> w \<noteq> 0 \<or> h \<noteq> 0) rows)"

fun faces_rows :: "faces_value \<Rightarrow> box list" where
  "faces_rows EmptyTuple = []"
| "faces_rows (NdArray rows) = rows"

text \<open>
  What a call of the endpoint finds outside the module's state: the uploaded file
  (\<open>None\<close> when the request has none), the detector on the query frame
  (\<^verbatim>\<open>detectMultiScale(gray_frame, scaleFactor=1.1, minNeighbors=5, minSize=(30,
  30))\<close>), the prediction of a trained recognizer for a face crop, the environment of a
  training it may start, and the environment of the \<^verbatim>\<open>log_attendance\<close> call for
  the face at each position.
\<close>

record scan_env =
  upload :: "decoded option"
  detect_scan :: "image \<Rightarrow> box list"
  predict :: "(sample \<times> int) list \<Rightarrow> sample \<Rightarrow> int \<times> real"
  training :: train_env
  attendance :: "nat \<Rightarrow> att_env"

definition recognition_threshold :: real where
  "recognition_threshold = 80"

text \<open>\<^verbatim>\<open>int(confidence)\<close> truncates towards zero.\<close>

definition py_int :: "real \<Rightarrow> int" where
  "py_int x = (if 0 \<le> x then \<lfloor>x\<rfloor> else \<lceil>x\<rceil>)"

text \<open>
  One entry of \<^verbatim>\<open>results\<close>: \<open>Recognized n r\<close> stands for the string
  \<^verbatim>\<open>"Recognized: {n} (Roll: {r}). Attendance Marked."\<close> and \<open>Unknown c\<close> for
  \<^verbatim>\<open>"Detected an Unknown face (Confidence: {c}). Access Denied."\<close>.
\<close>

datatype face_result = Recognized string string | Unknown int

text \<open>
  Lines 252 to 269, the loop over \<^verbatim>\<open>faces\<close>; \<open>i\<close> is the position of the
  face at the head of the list. \<^verbatim>\<open>face_recognizer.predict\<close> raises
  \<^verbatim>\<open>cv2.error\<close> on a recognizer that was never trained. The state is returned in
  both cases: what earlier iterations logged stays logged when a later one raises.
\<close>

fun classify_faces ::
  "scan_env \<Rightarrow> image \<Rightarrow> nat \<Rightarrow> box list \<Rightarrow> world \<Rightarrow> face_result list
     \<Rightarrow> world \<times> (py_exception + face_result list)" where
  "classify_faces env gray_frame i [] w results = (w, Inr results)"
| "classify_faces env gray_frame i (b # bs) w results =
     (let face_roi = (gray_frame, b)
      in if face_recognizer w = [] then (w, Inl Cv2Error)
         else
           (case predict env (face_recognizer w) face_roi of
              (label, confidence) \<Rightarrow>
                if confidence < recognition_threshold \<and> label \<in> set (dict_keys (labels_map w))
                then
                  (let person_info = the (dict_get (labels_map w) label);
                       w' = fst (log_attendance (attendance env i)
                                   (name person_info) (roll_no person_info) w)
                   in classify_faces env gray_frame (Suc i) bs w'
                        (results @ [Recognized (name person_info) (roll_no person_info)]))
                else
                  classify_faces env gray_frame (Suc i) bs w
                    (results @ [Unknown (py_int confidence)])))"

text \<open>
  The responses of the endpoint, each with its HTTP status; \<open>Results rs\<close> stands for
  the message that joins the strings of \<open>rs\<close> with spaces.
\<close>

datatype scan_response =
    ImageRequired
  | DetectorNotInitialized
  | ModelNotAvailable
  | InvalidImage
  | NoFaceDetected
  | Results "face_result list"
  | ScanFailed py_exception

fun status_code :: "scan_response \<Rightarrow> nat" where
  "status_code ImageRequired = 400"
| "status_code DetectorNotInitialized = 500"
| "status_code ModelNotAvailable = 500"
| "status_code InvalidImage = 400"
| "status_code NoFaceDetected = 200"
| "status_code (Results rs) = 200"
| "status_code (ScanFailed e) = 500"

text \<open>Whether the JSON body carries the key \<^verbatim>\<open>"error"\<close>.\<close>

fun is_error :: "scan_response \<Rightarrow> bool" where
  "is_error NoFaceDetected = False"
| "is_error (Results rs) = False"
| "is_error r = True"

text \<open>Lines 222 to 275.\<close>

definition scan_image_endpoint :: "scan_env \<Rightarrow> world \<Rightarrow> world \<times> scan_response" where
  "scan_image_endpoint env w =
     (let w0 = log_to ScanRequest w
      in case upload env of
           None \<Rightarrow> (w0, ImageRequired)
         | Some image_file \<Rightarrow>
             if detector_empty (training env) then (w0, DetectorNotInitialized)
             else
               (case (if labels_map w0 = [] then load_or_train_model (training env) w0
                      else (w0, True)) of
                  (w1, available) \<Rightarrow>
                    if \<not> available then (w1, ModelNotAvailable)
                    else
                      (case image_file of
                         DecodeRaises \<Rightarrow> (log_to ScanError w1, ScanFailed Cv2Error)
                       | NotAnImage \<Rightarrow> (log_to CouldNotDecode w1, InvalidImage)
                       | Frame gray_frame \<Rightarrow>
                           (let faces = detectMultiScale_value (detect_scan env gray_frame)
                            in case faces_any faces of
                                 Inl e \<Rightarrow> (log_to ScanError w1, ScanFailed e)
                               | Inr some \<Rightarrow>
                                   if \<not> some then (w1, NoFaceDetected)
                                   else
                                     (case classify_faces env gray_frame 0 (faces_rows faces) w1 [] of
                                        (w2, Inl e) \<Rightarrow> (log_to ScanError w2, ScanFailed e)
                                      | (w2, Inr results) \<Rightarrow> (w2, Results results))))))"

section \<open>Notions the properties are stated with\<close>

text \<open>Everything after the first underscore of a directory name.\<close>

definition after_first_sep :: "string \<Rightarrow> string" where
  "after_first_sep s = tl (dropWhile (\<lambda>c. c \<noteq> CHR ''_'') s)"

text \<open>
  The \<^verbatim>\<open>try\<close> block of \<^verbatim>\<open>log_attendance\<close> raises: the log does not exist
  and writing its header fails, or appending the entry fails.
\<close>

definition write_fails :: "att_env \<Rightarrow> world \<Rightarrow> bool" where
  "write_fails env w = ((attendance_file w = None \<and> header_raises env) \<or> append_raises env)"

text \<open>The attendance records in the log: its lines but the header.\<close>

definition records_of :: "world \<Rightarrow> csv_line list" where
  "records_of w = (case attendance_file w of None \<Rightarrow> [] | Some ls \<Rightarrow> filter (\<lambda>l. l \<noteq> Header) ls)"

text \<open>
  Lines 234 to 236 of \<^verbatim>\<open>scan_image_endpoint\<close>, after the request was logged: the
  state in which the upload is then scanned, and whether a model is taken to be available.
\<close>

definition model_check :: "scan_env \<Rightarrow> world \<Rightarrow> world \<times> bool" where
  "model_check env w =
     (if labels_map (log_to ScanRequest w) = []
      then load_or_train_model (training env) (log_to ScanRequest w)
      else (log_to ScanRequest w, True))"

text \<open>The outcome for one face, by the decision rule, in the state that is scanned.\<close>

definition face_outcome :: "scan_env \<Rightarrow> world \<Rightarrow> image \<Rightarrow> box \<Rightarrow> face_result" where
  "face_outcome env w gray_frame b =
     (case predict env (face_recognizer w) (gray_frame, b) of
        (label, score) \<Rightarrow>
          (case dict_get (labels_map w) label of
             Some who \<Rightarrow>
               if score < 80 then Recognized (name who) (roll_no who) else Unknown (py_int score)
           | None \<Rightarrow> Unknown (py_int score)))"

text \<open>
  A directory entry is a training image when the loop over \<^verbatim>\<open>os.listdir\<close> reads
  it: its name has an image extension and \<^verbatim>\<open>cv2.imread\<close> returns an image.
  \<open>faces_found\<close> is the number of faces the detector finds in it; an image is usable
  with exactly one face and skipped otherwise, and \<open>sample_of\<close> is the crop of the
  first face.
\<close>

definition is_training_image :: "node \<Rightarrow> bool" where
  "is_training_image c =
     (endswith_any (lower (node_name c)) image_extensions \<and> imread c \<noteq> None)"

definition faces_found :: "(image \<Rightarrow> box list) \<Rightarrow> node \<Rightarrow> nat" where
  "faces_found det c = length (det (the (imread c)))"

definition usable :: "(image \<Rightarrow> box list) \<Rightarrow> node \<Rightarrow> bool" where
  "usable det c = (is_training_image c \<and> faces_found det c = 1)"

definition skipped :: "(image \<Rightarrow> box list) \<Rightarrow> node \<Rightarrow> bool" where
  "skipped det c = (is_training_image c \<and> faces_found det c \<noteq> 1)"

definition sample_of :: "(image \<Rightarrow> box list) \<Rightarrow> node \<Rightarrow> sample" where
  "sample_of det c = (the (imread c), hd (det (the (imread c))))"

text \<open>The warning \<^verbatim>\<open>Skipping '{file_name}': Found {n} faces (expected 1).\<close>\<close>

fun is_skipping :: "log_record \<Rightarrow> bool" where
  "is_skipping (Skipping f n) = True"
| "is_skipping r = False"

text \<open>
  The labels in the recognizer's trained set, and the labels with an entry in the registry.
\<close>

definition trained_labels :: "world \<Rightarrow> int set" where
  "trained_labels w = snd ` set (face_recognizer w)"

definition registry_labels :: "world \<Rightarrow> int set" where
  "registry_labels w = set (dict_keys (labels_map w))"

section \<open>Example states and environments\<close>

text \<open>The state of the module when it is imported, with none of its files on disk.\<close>

definition initial_world :: world where
  "initial_world =
     \<lparr> labels_map = [], next_label_id = 0, face_recognizer = [],
       attendance_logged_today = Map.empty, model_file = None, labels_file = None,
       attendance_file = None, logging = [] \<rparr>"

text \<open>A clock reading for \<^verbatim>\<open>log_attendance\<close>, with writes that succeed.\<close>

definition clock :: "string \<Rightarrow> string \<Rightarrow> int \<Rightarrow> att_env" where
  "clock d t us = \<lparr> now = \<lparr> ymd = d, hms = t, micros = us \<rparr>,
                    header_raises = False, append_raises = False \<rparr>"

text \<open>An identity, and the state after a training that enrolled it from one photo.\<close>

definition bob :: identity where
  "bob = \<lparr> name = ''Bob'', roll_no = ''1'' \<rparr>"

definition enrolled_world :: world where
  "enrolled_world =
     initial_world\<lparr> labels_map := [(0, bob)], next_label_id := 1,
                    face_recognizer := [(([[7]], (0, 0, 40, 40)), 0)] \<rparr>"

text \<open>
  A recognizer's answers for three face boxes: a near match for label 0, a far match for
  label 0, and a near match for a label no registry entry has.
\<close>

definition toy_predict :: "(sample \<times> int) list \<Rightarrow> sample \<Rightarrow> int \<times> real" where
  "toy_predict trained s =
     (if snd s = (0, 0, 40, 40) then (0, 42.5)
      else if snd s = (50, 0, 40, 40) then (0, 95.5)
      else (7, 10))"

text \<open>A training environment with an empty corpus, and a scan of a decodable upload.\<close>

definition idle_training :: train_env where
  "idle_training =
     \<lparr> dir_exists = True, corpus = [], str_title = ascii_title, detector_empty = False,
       detect = (\<lambda>img. []),
       train_raises = False, write_raises = False, save_raises = False \<rparr>"

definition example_scan :: "box list \<Rightarrow> scan_env" where
  "example_scan found =
     \<lparr> upload = Some (Frame [[7]]), detect_scan = (\<lambda>frame. found), predict = toy_predict,
       training = idle_training,
       attendance = (\<lambda>i. clock ''2024-03-01'' ''09:00:00'' (int i)) \<rparr>"

text \<open>
  A second identity; a detector that finds one face in the image \<open>[[1]]\<close>, two in
  \<open>[[2]]\<close> and none in any other; a training environment over folders with ASCII
  names in which nothing raises; and corpora over these.
\<close>

definition alice :: identity where
  "alice = \<lparr> name = ''Alice'', roll_no = ''2'' \<rparr>"

definition toy_detect :: "image \<Rightarrow> box list" where
  "toy_detect img =
     (if img = [[1]] then [(0, 0, 40, 40)]
      else if img = [[2]] then [(0, 0, 40, 40), (50, 0, 40, 40)]
      else [])"

definition training_on :: "node list \<Rightarrow> train_env" where
  "training_on c =
     \<lparr> dir_exists = True, corpus = c, str_title = ascii_title, detector_empty = False,
       detect = toy_detect,
       train_raises = False, write_raises = False, save_raises = False \<rparr>"

definition corpus_bob_faceless :: "node list" where
  "corpus_bob_faceless = [Folder ''bob_1'' [File ''a.jpg'' (Some [[0]])]]"

definition corpus_bob :: "node list" where
  "corpus_bob = [Folder ''bob_1'' [File ''a.jpg'' (Some [[0]]), File ''b.jpg'' (Some [[1]])]]"

definition corpus_alice_bob :: "node list" where
  "corpus_alice_bob =
     [Folder ''bob_1'' [File ''a.jpg'' (Some [[0]]), File ''b.jpg'' (Some [[1]])],
      Folder ''alice_2'' [File ''c.png'' (Some [[1]])]]"

text \<open>
  A third identity, two more corpora, and the state a training on
  \<open>corpus_bob_faceless\<close> leaves behind when it starts from \<open>initial_world\<close>.
\<close>

definition carl :: identity where
  "carl = \<lparr> name = ''Carl'', roll_no = ''3'' \<rparr>"

definition corpus_alice_bob_faceless :: "node list" where
  "corpus_alice_bob_faceless =
     [Folder ''bob_1'' [File ''a.jpg'' (Some [[0]])],
      Folder ''alice_2'' [File ''c.png'' (Some [[1]])]]"

definition corpus_bob_faceless_carl :: "node list" where
  "corpus_bob_faceless_carl =
     [Folder ''bob_1'' [File ''a.jpg'' (Some [[0]])],
      Folder ''carl_3'' [File ''c.png'' (Some [[1]])]]"

definition after_faceless_bob :: world where
  "after_faceless_bob =
     initial_world\<lparr> labels_map := [(0, bob)],
        logging := [ScanningTrainingDir, Processing ''Bob'' ''1'' 0, Skipping ''a.jpg'' 0,
                    NoValidFaces] \<rparr>"

section \<open>The parser of directory names\<close>

lemma split_sep_not_Nil: "split_sep sep s \<noteq> []"
  by (induction s) (auto simp: Let_def)

lemma hd_split_sep: "hd (split_sep sep s) = takeWhile (\<lambda>c. c \<noteq> sep) s"
  by (induction s) (auto simp: Let_def)

lemma tl_split_sep:
  "tl (split_sep sep s) =
     (if sep \<in> set s then split_sep sep (tl (dropWhile (\<lambda>c. c \<noteq> sep) s)) else [])"
  by (induction s) (auto simp: Let_def)

lemma length_split_sep: "length (split_sep sep s) = Suc (count_list s sep)"
  by (induction s) (auto simp: Let_def split_sep_not_Nil)

lemma count_list_pos: "0 < count_list s c \<longleftrightarrow> c \<in> set s"
  by (induction s) auto

lemma part0: "split_sep sep s ! 0 = takeWhile (\<lambda>c. c \<noteq> sep) s"
  using hd_split_sep[of sep s] split_sep_not_Nil[of sep s] by (simp add: hd_conv_nth)

lemma part1: "sep \<in> set s \<Longrightarrow> split_sep sep s ! Suc 0 = takeWhile (\<lambda>c. c \<noteq> sep) (tl (dropWhile (\<lambda>c. c \<noteq> sep) s))"
proof -
  assume a: "sep \<in> set s"
  have "split_sep sep s ! Suc 0 = tl (split_sep sep s) ! 0"
    using split_sep_not_Nil[of sep s] by (cases "split_sep sep s") auto
  also have "\<dots> = split_sep sep (tl (dropWhile (\<lambda>c. c \<noteq> sep) s)) ! 0"
    using a by (simp add: tl_split_sep)
  finally show ?thesis by (simp add: part0)
qed

lemma count_after: "count_list s sep = 1 \<Longrightarrow> sep \<notin> set (tl (dropWhile (\<lambda>c. c \<noteq> sep) s))"
  by (induction s) (auto simp: count_list_0_iff split: if_splits)

text \<open>
  What the parser computes, for any \<^verbatim>\<open>str.title\<close>: the name is the title-cased
  text before the first underscore with hyphens replaced by spaces; the roll number is the
  text between the first and the second underscore, and the empty string when the
  directory name has no underscore. For a name with exactly one underscore that is
  everything after it.
\<close>

lemma parse_dir_name_fields:
  "name (parse_dir_name ttl tag) =
     ttl (replace_char CHR ''-'' CHR '' '' (takeWhile (\<lambda>c. c \<noteq> CHR ''_'') tag))
   \<and> roll_no (parse_dir_name ttl tag) =
       (if CHR ''_'' \<in> set tag
        then takeWhile (\<lambda>c. c \<noteq> CHR ''_'') (after_first_sep tag) else [])
   \<and> (count_list tag CHR ''_'' = 1 \<longrightarrow> roll_no (parse_dir_name ttl tag) = after_first_sep tag)"
proof -
  have len: "length (split_sep CHR ''_'' tag) > 1 \<longleftrightarrow> CHR ''_'' \<in> set tag"
    by (simp add: length_split_sep count_list_pos)
  have n: "name (parse_dir_name ttl tag) =
     ttl (replace_char CHR ''-'' CHR '' '' (takeWhile (\<lambda>c. c \<noteq> CHR ''_'') tag))"
    by (simp add: parse_dir_name_def Let_def part0)
  have r: "roll_no (parse_dir_name ttl tag) =
       (if CHR ''_'' \<in> set tag
        then takeWhile (\<lambda>c. c \<noteq> CHR ''_'') (after_first_sep tag) else [])"
    using len by (simp add: parse_dir_name_def Let_def part1 after_first_sep_def)
  have o: "count_list tag CHR ''_'' = 1 \<longrightarrow> roll_no (parse_dir_name ttl tag) = after_first_sep tag"
  proof
    assume c: "count_list tag CHR ''_'' = 1"
    then have "CHR ''_'' \<in> set tag"
      using count_list_pos[of tag "CHR ''_''"] by simp
    moreover have "CHR ''_'' \<notin> set (after_first_sep tag)"
      using count_after[OF c] by (simp add: after_first_sep_def)
    then have "takeWhile (\<lambda>c. c \<noteq> CHR ''_'') (after_first_sep tag) = after_first_sep tag"
      by (auto simp: takeWhile_eq_all_conv)
    ultimately show "roll_no (parse_dir_name ttl tag) = after_first_sep tag"
      using r by simp
  qed
  from n r o show ?thesis by blast
qed

lemmas str_eval = parse_dir_name_def ascii_title_def replace_char_def is_lower_def is_upper_def
  to_upper_def to_lower_def lowers_def uppers_def Let_def after_first_sep_def

text \<open>
  C9 fails on the code. The external id is to be everything after the first separator,
  but the parser keeps only \<^verbatim>\<open>parts[1]\<close>, the text up to the second underscore:
  for the folder \<^verbatim>\<open>john_12_x\<close> it is \<^verbatim>\<open>12\<close>, not \<^verbatim>\<open>12_x\<close>, and for
  \<^verbatim>\<open>John_Doe_12\<close> it is \<^verbatim>\<open>Doe\<close>, not \<^verbatim>\<open>Doe_12\<close>. Both folder names
  are ones \<^verbatim>\<open>register_face\<close> creates: it keeps underscores in the roll number and
  turns the spaces of a name into underscores.
\<close>

theorem roll_no_cut_at_second_separator:
  "roll_no (parse_dir_name ttl ''john_12_x'') = ''12''
   \<and> after_first_sep ''john_12_x'' = ''12_x''
   \<and> roll_no (parse_dir_name ttl ''John_Doe_12'') = ''Doe''
   \<and> after_first_sep ''John_Doe_12'' = ''Doe_12''"
  by (simp add: parse_dir_name_def after_first_sep_def Let_def)

section \<open>The attendance ledger\<close>

lemma log_attendance_suppressed:
  "\<not> interval_elapsed (now env) (attendance_logged_today w (log_key nm roll (ymd (now env))))
   \<Longrightarrow> log_attendance env nm roll w = (w, False)"
  by (simp add: log_attendance_def Let_def)

lemma log_attendance_failed:
  "interval_elapsed (now env) (attendance_logged_today w (log_key nm roll (ymd (now env))))
   \<Longrightarrow> write_fails env w
   \<Longrightarrow> snd (log_attendance env nm roll w) = False
       \<and> attendance_logged_today (fst (log_attendance env nm roll w)) = attendance_logged_today w
       \<and> records_of (fst (log_attendance env nm roll w)) = records_of w"
  by (auto simp: log_attendance_def Let_def write_fails_def log_to_def records_of_def)

lemma log_attendance_accepted:
  "interval_elapsed (now env) (attendance_logged_today w (log_key nm roll (ymd (now env))))
   \<Longrightarrow> \<not> write_fails env w
   \<Longrightarrow> snd (log_attendance env nm roll w) = True
       \<and> attendance_file (fst (log_attendance env nm roll w)) =
           Some ((case attendance_file w of None \<Rightarrow> [Header] | Some ls \<Rightarrow> ls)
                 @ [Row (ymd (now env)) (hms (now env)) nm roll])
       \<and> attendance_logged_today (fst (log_attendance env nm roll w)) =
           (attendance_logged_today w)(log_key nm roll (ymd (now env)) \<mapsto> now env)"
  by (auto simp: log_attendance_def Let_def write_fails_def log_to_def split: option.splits)

lemma log_attendance_keeps:
  "labels_map (fst (log_attendance env nm roll w)) = labels_map w
   \<and> face_recognizer (fst (log_attendance env nm roll w)) = face_recognizer w
   \<and> next_label_id (fst (log_attendance env nm roll w)) = next_label_id w"
  by (simp add: log_attendance_def Let_def log_to_def)


lemma records_of_accepted:
  assumes "interval_elapsed (now env) (attendance_logged_today w (log_key nm roll (ymd (now env))))"
    and "\<not> write_fails env w"
  shows "records_of (fst (log_attendance env nm roll w)) =
           records_of w @ [Row (ymd (now env)) (hms (now env)) nm roll]"
  using log_attendance_accepted [OF assms]
  by (simp add: records_of_def split: option.splits)

text \<open>
  C2, as amended. When the write to the log succeeds, a call of \<^verbatim>\<open>log_attendance\<close>
  appends one record and sets the timestamp of its key to now if the key has no timestamp
  or more than 10 seconds have passed since the stored one, and otherwise changes nothing
  and returns \<^verbatim>\<open>False\<close>. So of two calls for one identity on one date, the
  second at most 10 seconds after the first, only the first appends a record, and a third
  call on that date more than 10 seconds after the first appends a second record.
\<close>

theorem log_attendance_dedup:
  "(\<not> write_fails env w \<longrightarrow>
      (if attendance_logged_today w (log_key nm roll (ymd (now env))) = None
          \<or> micros (now env)
               - micros (the (attendance_logged_today w (log_key nm roll (ymd (now env)))))
             > 10 * 1000000
       then snd (log_attendance env nm roll w) = True
          \<and> records_of (fst (log_attendance env nm roll w)) =
              records_of w @ [Row (ymd (now env)) (hms (now env)) nm roll]
          \<and> attendance_logged_today (fst (log_attendance env nm roll w)) =
              (attendance_logged_today w)(log_key nm roll (ymd (now env)) \<mapsto> now env)
       else log_attendance env nm roll w = (w, False)))
   \<and> (\<not> write_fails e1 w \<and> \<not> append_raises e2 \<and> \<not> append_raises e3
        \<and> ymd (now e2) = ymd (now e1) \<and> ymd (now e3) = ymd (now e1)
        \<and> interval_elapsed (now e1) (attendance_logged_today w (log_key nm roll (ymd (now e1))))
        \<and> micros (now e2) - micros (now e1) \<le> 10 * 1000000
        \<and> micros (now e3) - micros (now e1) > 10 * 1000000 \<longrightarrow>
      records_of (fst (log_attendance e2 nm roll (fst (log_attendance e1 nm roll w)))) =
        records_of w @ [Row (ymd (now e1)) (hms (now e1)) nm roll]
      \<and> records_of (fst (log_attendance e3 nm roll
            (fst (log_attendance e2 nm roll (fst (log_attendance e1 nm roll w)))))) =
        records_of w @ [Row (ymd (now e1)) (hms (now e1)) nm roll,
                        Row (ymd (now e1)) (hms (now e3)) nm roll])"
proof (intro conjI impI)
  assume ok: "\<not> write_fails env w"
  let ?k = "log_key nm roll (ymd (now env))"
  show "if attendance_logged_today w ?k = None
          \<or> micros (now env) - micros (the (attendance_logged_today w ?k)) > 10 * 1000000
       then snd (log_attendance env nm roll w) = True
          \<and> records_of (fst (log_attendance env nm roll w)) =
              records_of w @ [Row (ymd (now env)) (hms (now env)) nm roll]
          \<and> attendance_logged_today (fst (log_attendance env nm roll w)) =
              (attendance_logged_today w)(?k \<mapsto> now env)
       else log_attendance env nm roll w = (w, False)"
  proof (cases "interval_elapsed (now env) (attendance_logged_today w ?k)")
    case True
    then have c: "attendance_logged_today w ?k = None
          \<or> micros (now env) - micros (the (attendance_logged_today w ?k)) > 10 * 1000000"
      by (auto simp: interval_elapsed_def min_log_interval_seconds_def split: option.splits)
    show ?thesis
      using c log_attendance_accepted [OF True ok] records_of_accepted [OF True ok] by simp
  next
    case False
    then have c: "\<not> (attendance_logged_today w ?k = None
          \<or> micros (now env) - micros (the (attendance_logged_today w ?k)) > 10 * 1000000)"
      by (auto simp: interval_elapsed_def min_log_interval_seconds_def split: option.splits)
    show ?thesis
      using c log_attendance_suppressed [OF False] by simp
  qed
next
  assume h: "\<not> write_fails e1 w \<and> \<not> append_raises e2 \<and> \<not> append_raises e3
        \<and> ymd (now e2) = ymd (now e1) \<and> ymd (now e3) = ymd (now e1)
        \<and> interval_elapsed (now e1) (attendance_logged_today w (log_key nm roll (ymd (now e1))))
        \<and> micros (now e2) - micros (now e1) \<le> 10 * 1000000
        \<and> micros (now e3) - micros (now e1) > 10 * 1000000"
  let ?k = "log_key nm roll (ymd (now e1))"
  let ?w1 = "fst (log_attendance e1 nm roll w)"
  let ?w2 = "fst (log_attendance e2 nm roll ?w1)"
  have a1: "interval_elapsed (now e1) (attendance_logged_today w ?k)"
    using h by simp
  have ok1: "\<not> write_fails e1 w"
    using h by simp
  have m1: "attendance_logged_today ?w1 ?k = Some (now e1)"
    using log_attendance_accepted [OF a1 ok1] by simp
  have f1: "attendance_file ?w1 \<noteq> None"
    using log_attendance_accepted [OF a1 ok1] by simp
  have r1: "records_of ?w1 = records_of w @ [Row (ymd (now e1)) (hms (now e1)) nm roll]"
    by (rule records_of_accepted [OF a1 ok1])
  have s2: "\<not> interval_elapsed (now e2) (attendance_logged_today ?w1 (log_key nm roll (ymd (now e2))))"
    using h m1 by (simp add: interval_elapsed_def min_log_interval_seconds_def)
  have w2: "?w2 = ?w1"
    using log_attendance_suppressed [OF s2] by simp
  show "records_of ?w2 = records_of w @ [Row (ymd (now e1)) (hms (now e1)) nm roll]"
    using w2 r1 by simp
  have a3: "interval_elapsed (now e3) (attendance_logged_today ?w1 (log_key nm roll (ymd (now e3))))"
    using h m1 by (simp add: interval_elapsed_def min_log_interval_seconds_def)
  have ok3: "\<not> write_fails e3 ?w1"
    using h f1 by (simp add: write_fails_def)
  have "records_of (fst (log_attendance e3 nm roll ?w1)) =
          records_of ?w1 @ [Row (ymd (now e3)) (hms (now e3)) nm roll]"
    by (rule records_of_accepted [OF a3 ok3])
  then show "records_of (fst (log_attendance e3 nm roll ?w2)) =
        records_of w @ [Row (ymd (now e1)) (hms (now e1)) nm roll,
                        Row (ymd (now e1)) (hms (now e3)) nm roll]"
    using w2 r1 h by simp
qed

lemmas att_eval = log_attendance_def interval_elapsed_def min_log_interval_seconds_def
  log_key_def log_to_def write_fails_def records_of_def initial_world_def clock_def Let_def

theorem log_attendance_dedup_witness:
  "\<not> write_fails (clock ''2024-03-01'' ''09:00:00'' 0) initial_world
   \<and> attendance_logged_today initial_world (log_key ''Bob'' ''1'' ''2024-03-01'') = None
   \<and> log_attendance (clock ''2024-03-01'' ''09:00:05'' 5000000) ''Bob'' ''1''
        (fst (log_attendance (clock ''2024-03-01'' ''09:00:00'' 0) ''Bob'' ''1'' initial_world))
      = (fst (log_attendance (clock ''2024-03-01'' ''09:00:00'' 0) ''Bob'' ''1'' initial_world), False)
   \<and> records_of (fst (log_attendance (clock ''2024-03-01'' ''09:00:12'' 12000000) ''Bob'' ''1''
        (fst (log_attendance (clock ''2024-03-01'' ''09:00:05'' 5000000) ''Bob'' ''1''
          (fst (log_attendance (clock ''2024-03-01'' ''09:00:00'' 0) ''Bob'' ''1'' initial_world))))))
      = [Row ''2024-03-01'' ''09:00:00'' ''Bob'' ''1'', Row ''2024-03-01'' ''09:00:12'' ''Bob'' ''1'']"
proof -
  let ?e1 = "clock ''2024-03-01'' ''09:00:00'' 0"
  let ?e2 = "clock ''2024-03-01'' ''09:00:05'' 5000000"
  let ?e3 = "clock ''2024-03-01'' ''09:00:12'' 12000000"
  let ?w1 = "fst (log_attendance ?e1 ''Bob'' ''1'' initial_world)"
  note t = log_attendance_dedup [of ?e2 ?w1 "''Bob''" "''1''" ?e1 ?e2 ?e3]
  note u = log_attendance_dedup [of ?e1 initial_world "''Bob''" "''1''" ?e1 ?e2 ?e3]
  have h1: "\<not> write_fails ?e1 initial_world"
    by (simp add: write_fails_def clock_def)
  have h2: "attendance_logged_today initial_world (log_key ''Bob'' ''1'' ''2024-03-01'') = None"
    by (simp add: initial_world_def)
  have w1: "attendance_logged_today ?w1 (log_key ''Bob'' ''1'' ''2024-03-01'')
              = Some (now ?e1) \<and> attendance_file ?w1 \<noteq> None"
    by (simp add: att_eval)
  have h3: "\<not> write_fails ?e2 ?w1"
    using w1 by (simp add: write_fails_def clock_def)
  have c1: "log_attendance ?e2 ''Bob'' ''1'' ?w1 = (?w1, False)"
    using t h3 w1 by (simp add: clock_def)
  have c2: "records_of (fst (log_attendance ?e3 ''Bob'' ''1''
              (fst (log_attendance ?e2 ''Bob'' ''1'' ?w1))))
      = [Row ''2024-03-01'' ''09:00:00'' ''Bob'' ''1'', Row ''2024-03-01'' ''09:00:12'' ''Bob'' ''1'']"
    using u h1 h2
    by (simp add: clock_def records_of_def initial_world_def interval_elapsed_def)
  from h1 h2 c1 c2 show ?thesis by simp
qed

text \<open>
  C2 as stated fails when the write fails: the key has no timestamp, yet no record is
  appended and none is set. It also fails across midnight: two calls five seconds apart
  on different dates have different keys, and both append a record.
\<close>

theorem log_attendance_dedup_counterexample:
  "attendance_logged_today initial_world (log_key ''Bob'' ''1'' ''2024-03-01'') = None
   \<and> log_attendance ((clock ''2024-03-01'' ''09:00:00'' 0)\<lparr> append_raises := True \<rparr>)
        ''Bob'' ''1'' initial_world
      = (initial_world\<lparr> attendance_file := Some [Header], logging := [ErrorWritingLog] \<rparr>, False)
   \<and> records_of (fst (log_attendance (clock ''2024-03-02'' ''00:00:03'' 5000000) ''Bob'' ''1''
        (fst (log_attendance (clock ''2024-03-01'' ''23:59:58'' 0) ''Bob'' ''1'' initial_world))))
      = [Row ''2024-03-01'' ''23:59:58'' ''Bob'' ''1'', Row ''2024-03-02'' ''00:00:03'' ''Bob'' ''1'']"
  by (simp add: att_eval)

text \<open>
  C10. When the key is due and the write fails, \<^verbatim>\<open>log_attendance\<close> returns
  \<^verbatim>\<open>False\<close> and leaves the timestamps as they were, so a later call for the same
  identity on the same date is not suppressed: when its write succeeds it returns
  \<^verbatim>\<open>True\<close> and appends the record.
\<close>

theorem log_attendance_write_failure:
  assumes "interval_elapsed (now env) (attendance_logged_today w (log_key nm roll (ymd (now env))))"
    and "write_fails env w"
  shows "snd (log_attendance env nm roll w) = False
     \<and> attendance_logged_today (fst (log_attendance env nm roll w)) = attendance_logged_today w
     \<and> (\<forall>env'. ymd (now env') = ymd (now env) \<and> micros (now env) \<le> micros (now env')
            \<and> \<not> write_fails env' (fst (log_attendance env nm roll w)) \<longrightarrow>
          snd (log_attendance env' nm roll (fst (log_attendance env nm roll w))) = True
          \<and> records_of (fst (log_attendance env' nm roll (fst (log_attendance env nm roll w)))) =
              records_of w @ [Row (ymd (now env')) (hms (now env')) nm roll])"
proof (intro conjI allI impI)
  let ?w1 = "fst (log_attendance env nm roll w)"
  note f = log_attendance_failed [OF assms]
  show "snd (log_attendance env nm roll w) = False"
    using f by simp
  show m: "attendance_logged_today ?w1 = attendance_logged_today w"
    using f by simp
  fix env'
  assume h: "ymd (now env') = ymd (now env) \<and> micros (now env) \<le> micros (now env')
            \<and> \<not> write_fails env' ?w1"
  have a: "interval_elapsed (now env') (attendance_logged_today ?w1 (log_key nm roll (ymd (now env'))))"
    using assms(1) h m
    by (auto simp: interval_elapsed_def split: option.splits)
  have ok: "\<not> write_fails env' ?w1"
    using h by simp
  show "snd (log_attendance env' nm roll ?w1) = True"
    using log_attendance_accepted [OF a ok] by simp
  show "records_of (fst (log_attendance env' nm roll ?w1)) =
              records_of w @ [Row (ymd (now env')) (hms (now env')) nm roll]"
    using records_of_accepted [OF a ok] f by simp
qed


theorem log_attendance_write_failure_witness:
  "interval_elapsed (now (clock ''2024-03-01'' ''09:00:00'' 0))
     (attendance_logged_today initial_world (log_key ''Bob'' ''1'' ''2024-03-01''))
   \<and> write_fails ((clock ''2024-03-01'' ''09:00:00'' 0)\<lparr> append_raises := True \<rparr>) initial_world
   \<and> snd (log_attendance ((clock ''2024-03-01'' ''09:00:00'' 0)\<lparr> append_raises := True \<rparr>)
             ''Bob'' ''1'' initial_world) = False
   \<and> snd (log_attendance (clock ''2024-03-01'' ''09:00:02'' 2000000) ''Bob'' ''1''
        (fst (log_attendance ((clock ''2024-03-01'' ''09:00:00'' 0)\<lparr> append_raises := True \<rparr>)
               ''Bob'' ''1'' initial_world))) = True"
proof -
  let ?e = "(clock ''2024-03-01'' ''09:00:00'' 0)\<lparr> append_raises := True \<rparr>"
  let ?e' = "clock ''2024-03-01'' ''09:00:02'' 2000000"
  have a: "interval_elapsed (now ?e)
     (attendance_logged_today initial_world (log_key ''Bob'' ''1'' (ymd (now ?e))))"
    by (simp add: interval_elapsed_def initial_world_def)
  have f: "write_fails ?e initial_world"
    by (simp add: write_fails_def clock_def)
  note t = log_attendance_write_failure [OF a f]
  have ok: "\<not> write_fails ?e' (fst (log_attendance ?e ''Bob'' ''1'' initial_world))"
    by (simp add: write_fails_def clock_def)
  have "snd (log_attendance ?e' ''Bob'' ''1''
          (fst (log_attendance ?e ''Bob'' ''1'' initial_world))) = True"
    using t ok by (simp add: clock_def)
  with a f t show ?thesis by (simp add: clock_def)
qed

section \<open>The recognition pipeline\<close>

lemma dict_get_keys: "k \<in> set (dict_keys m) \<longleftrightarrow> dict_get m k \<noteq> None"
  by (auto simp: dict_keys_def dict_get_def map_of_eq_None_iff)

lemma classify_faces_from:
  "face_recognizer w' = face_recognizer w \<Longrightarrow> labels_map w' = labels_map w
   \<Longrightarrow> face_recognizer w \<noteq> []
   \<Longrightarrow> snd (classify_faces env g i faces w' rs) = Inr (rs @ map (face_outcome env w g) faces)"
proof (induction faces arbitrary: i w' rs)
  case Nil
  then show ?case by simp
next
  case (Cons b bs)
  obtain label confidence where p: "predict env (face_recognizer w) (g, b) = (label, confidence)"
    by (cases "predict env (face_recognizer w) (g, b)")
  show ?case
  proof (cases "confidence < recognition_threshold \<and> label \<in> set (dict_keys (labels_map w))")
    case True
    then obtain who where who: "dict_get (labels_map w) label = Some who"
      by (auto simp: dict_get_keys)
    let ?w'' = "fst (log_attendance (attendance env i) (name who) (roll_no who) w')"
    have k: "face_recognizer ?w'' = face_recognizer w \<and> labels_map ?w'' = labels_map w"
      using Cons.prems log_attendance_keeps [of "attendance env i" "name who" "roll_no who" w']
      by simp
    have "snd (classify_faces env g (Suc i) bs ?w'' (rs @ [Recognized (name who) (roll_no who)]))
            = Inr ((rs @ [Recognized (name who) (roll_no who)]) @ map (face_outcome env w g) bs)"
      using Cons.IH [of ?w''] k Cons.prems by simp
    moreover have "face_outcome env w g b = Recognized (name who) (roll_no who)"
      using True p who by (simp add: face_outcome_def recognition_threshold_def)
    ultimately show ?thesis
      using True p who Cons.prems by (simp add: Let_def)
  next
    case False
    have "snd (classify_faces env g (Suc i) bs w' (rs @ [Unknown (py_int confidence)]))
            = Inr ((rs @ [Unknown (py_int confidence)]) @ map (face_outcome env w g) bs)"
      using Cons.IH [of w'] Cons.prems by simp
    moreover have "face_outcome env w g b = Unknown (py_int confidence)"
      using False p
      by (auto simp: face_outcome_def recognition_threshold_def dict_get_keys split: option.splits)
    ultimately show ?thesis
      using False p Cons.prems by (auto simp: Let_def)
  qed
qed

lemma classify_faces_untrained:
  "face_recognizer w = [] \<Longrightarrow> faces \<noteq> []
   \<Longrightarrow> classify_faces env g i faces w rs = (w, Inl Cv2Error)"
  by (cases faces) simp_all

lemma face_outcome_cong:
  "face_recognizer w' = face_recognizer w \<Longrightarrow> labels_map w' = labels_map w
   \<Longrightarrow> face_outcome env w' g b = face_outcome env w g b"
  by (simp add: face_outcome_def)

text \<open>
  C1 fails on the code. For a decodable upload in which the detector finds faces, the
  endpoint scans the frame in the state \<open>w1\<close> that the model check of lines 234 to 236
  leaves. When the recognizer of that state is trained, the response lists one result for
  each detected face, in order, and each is decided for its face alone: \<open>Recognized\<close>
  with the registry's identity exactly when the score is below 80 and the predicted label
  is a key of \<^verbatim>\<open>labels_map\<close>, and \<open>Unknown\<close> with the truncated score in every
  other case. When the recognizer is not trained, which the model check does not notice
  once a failed training has left entries in \<^verbatim>\<open>labels_map\<close>, no face is classified:
  \<^verbatim>\<open>predict\<close> raises and the response is an error with status 500.
\<close>

theorem scan_classifies_detected_faces:
  assumes "upload env = Some (Frame gray_frame)"
    and "\<not> detector_empty (training env)"
    and "model_check env w = (w1, True)"
    and "list_ex (\<lambda>(x, y, bw, bh). x \<noteq> 0 \<or> y \<noteq> 0 \<or> bw \<noteq> 0 \<or> bh \<noteq> 0)
           (detect_scan env gray_frame)"
  shows "snd (scan_image_endpoint env w) =
           (if face_recognizer w1 = [] then ScanFailed Cv2Error
            else Results (map (face_outcome env w1 gray_frame) (detect_scan env gray_frame)))
     \<and> (\<forall>b label score. predict env (face_recognizer w1) (gray_frame, b) = (label, score) \<longrightarrow>
          ((\<exists>who. face_outcome env w1 gray_frame b = Recognized (name who) (roll_no who)
                   \<and> dict_get (labels_map w1) label = Some who)
             \<longleftrightarrow> score < 80 \<and> label \<in> set (dict_keys (labels_map w1)))
          \<and> (\<not> (score < 80 \<and> label \<in> set (dict_keys (labels_map w1)))
               \<longrightarrow> face_outcome env w1 gray_frame b = Unknown (py_int score)))"
proof (intro conjI allI impI)
  let ?faces = "detect_scan env gray_frame"
  have ne: "?faces \<noteq> []"
    using assms(4) by auto
  have guard: "(if labels_map (log_to ScanRequest w) = []
                then load_or_train_model (training env) (log_to ScanRequest w)
                else (log_to ScanRequest w, True)) = (w1, True)"
    using assms(3) by (simp add: model_check_def)
  have any: "faces_any (detectMultiScale_value ?faces) = Inr True"
    using assms(4) ne by (simp add: detectMultiScale_value_def)
  have rows: "faces_rows (detectMultiScale_value ?faces) = ?faces"
    using ne by (simp add: detectMultiScale_value_def)
  show "snd (scan_image_endpoint env w) =
           (if face_recognizer w1 = [] then ScanFailed Cv2Error
            else Results (map (face_outcome env w1 gray_frame) ?faces))"
  proof (cases "face_recognizer w1 = []")
    case True
    have "classify_faces env gray_frame 0 ?faces w1 [] = (w1, Inl Cv2Error)"
      using True ne by (rule classify_faces_untrained)
    then show ?thesis
      using True assms(1,2) guard any rows
      by (simp add: scan_image_endpoint_def Let_def)
  next
    case False
    have r: "snd (classify_faces env gray_frame 0 ?faces w1 []) =
               Inr ([] @ map (face_outcome env w1 gray_frame) ?faces)"
      using False by (rule classify_faces_from [OF refl refl])
    obtain w2 where "classify_faces env gray_frame 0 ?faces w1 [] =
               (w2, Inr (map (face_outcome env w1 gray_frame) ?faces))"
      using r by (cases "classify_faces env gray_frame 0 ?faces w1 []") simp
    then show ?thesis
      using False assms(1,2) guard any rows
      by (simp add: scan_image_endpoint_def Let_def)
  qed
next
  fix b label score
  assume p: "predict env (face_recognizer w1) (gray_frame, b) = (label, score)"
  show "(\<exists>who. face_outcome env w1 gray_frame b = Recognized (name who) (roll_no who)
                   \<and> dict_get (labels_map w1) label = Some who)
             \<longleftrightarrow> score < 80 \<and> label \<in> set (dict_keys (labels_map w1))"
    using p by (auto simp: face_outcome_def dict_get_keys split: option.splits)
  assume "\<not> (score < 80 \<and> label \<in> set (dict_keys (labels_map w1)))"
  then show "face_outcome env w1 gray_frame b = Unknown (py_int score)"
    using p by (auto simp: face_outcome_def dict_get_keys split: option.splits)
qed

text \<open>
  C6 fails on the code. For a decodable upload in which the detector finds no face,
  \<^verbatim>\<open>detectMultiScale\<close> returns the empty tuple, \<^verbatim>\<open>faces.any()\<close> raises
  \<^verbatim>\<open>AttributeError\<close>, and the \<^verbatim>\<open>except\<close> clause of the endpoint answers
  with status 500 and an error body; the response is never the "no face detected" message.
\<close>

theorem scan_zero_faces:
  assumes "upload env = Some (Frame gray_frame)"
    and "detect_scan env gray_frame = []"
  shows "snd (scan_image_endpoint env w) \<noteq> NoFaceDetected
     \<and> is_error (snd (scan_image_endpoint env w))
     \<and> status_code (snd (scan_image_endpoint env w)) = 500
     \<and> (\<not> detector_empty (training env) \<and> labels_map w \<noteq> [] \<longrightarrow>
          snd (scan_image_endpoint env w) = ScanFailed AttributeError)"
  using assms
  by (auto simp: scan_image_endpoint_def Let_def detectMultiScale_value_def log_to_def
           split: prod.splits)


theorem scan_zero_faces_witness:
  "upload (example_scan []) = Some (Frame [[7]])
   \<and> detect_scan (example_scan []) [[7]] = []
   \<and> scan_image_endpoint (example_scan []) enrolled_world
       = (enrolled_world\<lparr> logging := [ScanRequest, ScanError] \<rparr>, ScanFailed AttributeError)"
proof -
  have u: "upload (example_scan []) = Some (Frame [[7]])"
    by (simp add: example_scan_def)
  have d: "detect_scan (example_scan []) [[7]] = []"
    by (simp add: example_scan_def)
  have "scan_image_endpoint (example_scan []) enrolled_world
       = (enrolled_world\<lparr> logging := [ScanRequest, ScanError] \<rparr>, ScanFailed AttributeError)"
    using scan_zero_faces [OF u d, of enrolled_world]
    by (simp add: scan_image_endpoint_def example_scan_def enrolled_world_def initial_world_def
          idle_training_def detectMultiScale_value_def log_to_def Let_def)
  with u d show ?thesis by simp
qed

section \<open>The registry\<close>

lemma dict_keys_dict_set: "set (dict_keys (dict_set k v m)) = insert k (set (dict_keys m))"
  by (induction m) (auto simp: dict_keys_def)

lemma dict_get_dict_set: "dict_get (dict_set k v m) k' = (if k' = k then Some v else dict_get m k')"
  by (induction m) (auto simp: dict_get_def)

lemma find_label_Some_key: "find_label m who = Some l \<Longrightarrow> l \<in> set (dict_keys m)"
  by (induction m) (auto simp: find_label_def dict_keys_def split: if_splits)

lemma find_label_dict_set:
  "find_label m who = None \<Longrightarrow> find_label (dict_set c who m) who = Some c"
  by (induction m) (auto simp: find_label_def split: if_splits)

lemma resolve_label_idempotent:
  "resolve_label who (m, c) = (l, m', c') \<Longrightarrow> resolve_label who (m', c') = (l, m', c')"
  by (auto simp: resolve_label_def find_label_dict_set split: option.splits)

lemma resolve_label_keys:
  "resolve_label who (m, c) = (l, m', c')
   \<Longrightarrow> l \<in> set (dict_keys m') \<and> set (dict_keys m) \<subseteq> set (dict_keys m')"
  by (auto simp: resolve_label_def dict_keys_dict_set find_label_Some_key split: option.splits)

section \<open>The training pipeline\<close>

lemma os_walk_dirs_leaf: "subfolders cs = [] \<Longrightarrow> os_walk_dirs cs = []"
  by (subst os_walk_dirs.simps) simp

lemma os_walk_dirs_flat:
  assumes "list_all (\<lambda>d. subfolders (snd d) = []) (subfolders cs)"
  shows "os_walk_dirs cs = sort_key fst (subfolders cs)"
proof -
  have "\<And>d. d \<in> set (sort_key fst (subfolders cs)) \<Longrightarrow> os_walk_dirs (snd d) = []"
    using assms by (auto simp: list_all_iff intro: os_walk_dirs_leaf)
  then have "concat (map (\<lambda>d. os_walk_dirs (snd d)) (sort_key fst (subfolders cs))) = []"
    by simp
  then show ?thesis
    by (subst os_walk_dirs.simps) (simp add: Let_def)
qed

lemma process_file_effect:
  "process_file det l acc c =
     acc\<lparr> images := images acc @ (if usable det c then [sample_of det c] else []),
          labels := labels acc @ (if usable det c then [l] else []),
          acc_log := acc_log acc @
            (if skipped det c then [Skipping (node_name c) (faces_found det c)]
             else if endswith_any (lower (node_name c)) image_extensions \<and> imread c = None
             then [CouldNotRead (node_name c)] else []) \<rparr>"
proof (cases "endswith_any (lower (node_name c)) image_extensions")
  case False
  then show ?thesis
    by (simp add: process_file_def usable_def skipped_def is_training_image_def)
next
  case True
  show ?thesis
  proof (cases "imread c")
    case None
    with True show ?thesis
      by (simp add: process_file_def usable_def skipped_def is_training_image_def)
  next
    case (Some img)
    show ?thesis
    proof (cases "length (det img) = 1")
      case one: True
      then have "det img ! 0 = hd (det img)"
        by (cases "det img") auto
      with True Some one show ?thesis
        by (simp add: process_file_def usable_def skipped_def is_training_image_def
              faces_found_def sample_of_def Let_def)
    next
      case False
      with True Some show ?thesis
        by (simp add: process_file_def usable_def skipped_def is_training_image_def
              faces_found_def sample_of_def Let_def)
    qed
  qed
qed

lemma usable_not_skipped: "usable det c \<Longrightarrow> \<not> skipped det c"
  by (simp add: usable_def skipped_def)

lemma process_files_effect:
  "foldl (process_file det l) acc listing =
     acc\<lparr> images := images acc @ map (sample_of det) (filter (usable det) listing),
          labels := labels acc @ map (\<lambda>c. l) (filter (usable det) listing),
          acc_log := acc_log (foldl (process_file det l) acc listing) \<rparr>
   \<and> filter is_skipping (acc_log (foldl (process_file det l) acc listing)) =
       filter is_skipping (acc_log acc) @
       map (\<lambda>c. Skipping (node_name c) (faces_found det c)) (filter (skipped det) listing)"
proof (induction listing arbitrary: acc)
  case Nil
  show ?case by simp
next
  case (Cons c cs)
  note ih = Cons.IH [of "process_file det l acc c"]
  show ?case
    apply (simp only: foldl_Cons)
    apply (rule conjI)
     apply (subst ih [THEN conjunct1])
     apply (simp add: process_file_effect)
    apply (subst ih [THEN conjunct2])
    apply (simp add: process_file_effect)
    done
qed


lemma process_group_effect:
  assumes "resolve_label (parse_dir_name ttl dir_name) (reg acc, current_id acc) = (l, m, n)"
  shows "images (process_group ttl det acc (dir_name, listing)) =
           images acc @ map (sample_of det) (filter (usable det) listing)"
    and "labels (process_group ttl det acc (dir_name, listing)) =
           labels acc @ map (\<lambda>c. l) (filter (usable det) listing)"
    and "reg (process_group ttl det acc (dir_name, listing)) = m"
    and "current_id (process_group ttl det acc (dir_name, listing)) = n"
    and "filter is_skipping (acc_log (process_group ttl det acc (dir_name, listing))) =
           filter is_skipping (acc_log acc) @
           map (\<lambda>c. Skipping (node_name c) (faces_found det c)) (filter (skipped det) listing)"
proof -
  let ?acc1 = "acc\<lparr> reg := m, current_id := n,
      acc_log := acc_log acc @
        [Processing (name (parse_dir_name ttl dir_name))
           (roll_no (parse_dir_name ttl dir_name)) l] \<rparr>"
  have g: "process_group ttl det acc (dir_name, listing) = foldl (process_file det l) ?acc1 listing"
    using assms by (simp add: process_group_def Let_def)
  note e = process_files_effect [of det l ?acc1 listing]
  show "images (process_group ttl det acc (dir_name, listing)) =
           images acc @ map (sample_of det) (filter (usable det) listing)"
    by (subst g, subst e [THEN conjunct1]) simp
  show "labels (process_group ttl det acc (dir_name, listing)) =
           labels acc @ map (\<lambda>c. l) (filter (usable det) listing)"
    by (subst g, subst e [THEN conjunct1]) simp
  show "reg (process_group ttl det acc (dir_name, listing)) = m"
    by (subst g, subst e [THEN conjunct1]) simp
  show "current_id (process_group ttl det acc (dir_name, listing)) = n"
    by (subst g, subst e [THEN conjunct1]) simp
  show "filter is_skipping (acc_log (process_group ttl det acc (dir_name, listing))) =
           filter is_skipping (acc_log acc) @
           map (\<lambda>c. Skipping (node_name c) (faces_found det c)) (filter (skipped det) listing)"
    by (subst g, subst e [THEN conjunct2]) simp
qed

lemma process_groups_images:
  "images (foldl (process_group ttl det) acc groups) =
     images acc @ map (sample_of det) (filter (usable det) (concat (map snd groups)))
   \<and> filter is_skipping (acc_log (foldl (process_group ttl det) acc groups)) =
       filter is_skipping (acc_log acc) @
       map (\<lambda>c. Skipping (node_name c) (faces_found det c))
         (filter (skipped det) (concat (map snd groups)))
   \<and> length (labels (foldl (process_group ttl det) acc groups)) =
       length (labels acc) + length (filter (usable det) (concat (map snd groups)))"
proof (induction groups arbitrary: acc)
  case Nil
  show ?case by simp
next
  case (Cons g gs)
  obtain d listing where g: "g = (d, listing)"
    by (cases g)
  obtain l m n where r: "resolve_label (parse_dir_name ttl d) (reg acc, current_id acc) = (l, m, n)"
    by (cases "resolve_label (parse_dir_name ttl d) (reg acc, current_id acc)")
  note e = process_group_effect [OF r, of det listing]
  note ih = Cons.IH [of "process_group ttl det acc (d, listing)"]
  show ?case
    using ih by (simp add: g e)
qed

lemma process_group_inv:
  assumes "set (labels acc) \<subseteq> set (dict_keys (reg acc))"
  shows "set (labels (process_group ttl det acc g)) \<subseteq> set (dict_keys (reg (process_group ttl det acc g)))
     \<and> set (dict_keys (reg acc)) \<subseteq> set (dict_keys (reg (process_group ttl det acc g)))"
proof -
  obtain d listing where g: "g = (d, listing)"
    by (cases g)
  obtain l m n where r: "resolve_label (parse_dir_name ttl d) (reg acc, current_id acc) = (l, m, n)"
    by (cases "resolve_label (parse_dir_name ttl d) (reg acc, current_id acc)")
  note e = process_group_effect [OF r, of det listing]
  note k = resolve_label_keys [OF r]
  show ?thesis
    using assms k by (auto simp: g e)
qed

lemma process_groups_inv:
  "set (labels acc) \<subseteq> set (dict_keys (reg acc))
   \<Longrightarrow> set (labels (foldl (process_group ttl det) acc groups))
         \<subseteq> set (dict_keys (reg (foldl (process_group ttl det) acc groups)))
       \<and> set (dict_keys (reg acc))
         \<subseteq> set (dict_keys (reg (foldl (process_group ttl det) acc groups)))"
proof (induction groups arbitrary: acc)
  case Nil
  then show ?case by simp
next
  case (Cons g gs)
  note s = process_group_inv [OF Cons.prems, of ttl det g]
  note ih = Cons.IH [OF s [THEN conjunct1]]
  show ?case
    using s ih by auto
qed

lemma scan_corpus_inv:
  "set (labels (scan_corpus env w)) \<subseteq> set (dict_keys (reg (scan_corpus env w)))
   \<and> set (dict_keys (labels_map w)) \<subseteq> set (dict_keys (reg (scan_corpus env w)))"
  using process_groups_inv [of "\<lparr> reg = labels_map w, current_id = next_label_id w, images = [],
      labels = [], acc_log = logging w \<rparr>" "str_title env" "detect env" "os_walk_dirs (corpus env)"]
  by (simp add: scan_corpus_def)


text \<open>
  C5. Within a group, a training image contributes the crop of its face, paired with the
  label of the group, exactly when the detector finds one face in it; an image with no
  face or with several contributes nothing, a \<open>Skipping\<close> warning is logged for it,
  and the loop goes on with the entries that follow. Over the whole corpus the images
  handed to the recognizer are the crops of the usable images in scan order, each with a
  label, and a training that succeeds trains the recognizer on exactly these pairs.
\<close>

theorem training_image_contribution:
  "images (process_group ttl det acc (dir_name, listing)) =
     images acc @ map (sample_of det) (filter (usable det) listing)
   \<and> labels (process_group ttl det acc (dir_name, listing)) =
       labels acc @
       map (\<lambda>c. fst (resolve_label (parse_dir_name ttl dir_name) (reg acc, current_id acc)))
         (filter (usable det) listing)
   \<and> filter is_skipping (acc_log (process_group ttl det acc (dir_name, listing))) =
       filter is_skipping (acc_log acc) @
       map (\<lambda>c. Skipping (node_name c) (faces_found det c)) (filter (skipped det) listing)
   \<and> level_of (Skipping file_name k) = WARNING
   \<and> images (scan_corpus env w) =
       map (sample_of (detect env))
         (filter (usable (detect env)) (concat (map snd (os_walk_dirs (corpus env)))))
   \<and> length (labels (scan_corpus env w)) = length (images (scan_corpus env w))
   \<and> filter is_skipping (acc_log (scan_corpus env w)) =
       filter is_skipping (logging w) @
       map (\<lambda>c. Skipping (node_name c) (faces_found (detect env) c))
         (filter (skipped (detect env)) (concat (map snd (os_walk_dirs (corpus env)))))
   \<and> (snd (train_model env w) \<longrightarrow>
        face_recognizer (fst (train_model env w)) =
          zip (images (scan_corpus env (log_to ScanningTrainingDir w)))
              (labels (scan_corpus env (log_to ScanningTrainingDir w))))"
proof -
  obtain l m next_id where
    r: "resolve_label (parse_dir_name ttl dir_name) (reg acc, current_id acc) = (l, m, next_id)"
    by (cases "resolve_label (parse_dir_name ttl dir_name) (reg acc, current_id acc)")
  note e = process_group_effect [OF r, of det listing]
  let ?acc0 = "\<lparr> reg = labels_map w, current_id = next_label_id w, images = [],
      labels = [], acc_log = logging w \<rparr>"
  note c = process_groups_images [of "str_title env" "detect env" ?acc0 "os_walk_dirs (corpus env)"]
  have g1: "images (process_group ttl det acc (dir_name, listing)) =
     images acc @ map (sample_of det) (filter (usable det) listing)"
    by (rule e(1))
  have g2: "labels (process_group ttl det acc (dir_name, listing)) =
       labels acc @
       map (\<lambda>c. fst (resolve_label (parse_dir_name ttl dir_name) (reg acc, current_id acc)))
         (filter (usable det) listing)"
    using e(2) r by simp
  have g3: "filter is_skipping (acc_log (process_group ttl det acc (dir_name, listing))) =
       filter is_skipping (acc_log acc) @
       map (\<lambda>c. Skipping (node_name c) (faces_found det c)) (filter (skipped det) listing)"
    by (rule e(5))
  have g4: "level_of (Skipping file_name k) = WARNING"
    by simp
  have c1: "images (scan_corpus env w) =
       map (sample_of (detect env))
         (filter (usable (detect env)) (concat (map snd (os_walk_dirs (corpus env)))))"
    using c by (simp add: scan_corpus_def)
  have c2: "length (labels (scan_corpus env w)) = length (images (scan_corpus env w))"
    using c by (simp add: scan_corpus_def)
  have c3: "filter is_skipping (acc_log (scan_corpus env w)) =
       filter is_skipping (logging w) @
       map (\<lambda>c. Skipping (node_name c) (faces_found (detect env) c))
         (filter (skipped (detect env)) (concat (map snd (os_walk_dirs (corpus env)))))"
    using c by (simp add: scan_corpus_def)
  have t: "snd (train_model env w) \<longrightarrow>
        face_recognizer (fst (train_model env w)) =
          zip (images (scan_corpus env (log_to ScanningTrainingDir w)))
              (labels (scan_corpus env (log_to ScanningTrainingDir w)))"
    by (simp add: train_model_def Let_def log_to_def)
  from g1 g2 g3 g4 c1 c2 c3 t show ?thesis
    by blast
qed

subsection \<open>Trainings on the example corpora\<close>

lemma walk_bob_faceless:
  "os_walk_dirs corpus_bob_faceless = [(''bob_1'', [File ''a.jpg'' (Some [[0]])])]"
  by (simp add: os_walk_dirs_flat corpus_bob_faceless_def)

lemma walk_bob:
  "os_walk_dirs corpus_bob =
     [(''bob_1'', [File ''a.jpg'' (Some [[0]]), File ''b.jpg'' (Some [[1]])])]"
  by (simp add: os_walk_dirs_flat corpus_bob_def)

lemma walk_alice_bob:
  "os_walk_dirs corpus_alice_bob =
     [(''alice_2'', [File ''c.png'' (Some [[1]])]),
      (''bob_1'', [File ''a.jpg'' (Some [[0]]), File ''b.jpg'' (Some [[1]])])]"
  by (simp add: os_walk_dirs_flat corpus_alice_bob_def)

lemma walk_alice_bob_faceless:
  "os_walk_dirs corpus_alice_bob_faceless =
     [(''alice_2'', [File ''c.png'' (Some [[1]])]),
      (''bob_1'', [File ''a.jpg'' (Some [[0]])])]"
  by (simp add: os_walk_dirs_flat corpus_alice_bob_faceless_def)

lemma walk_bob_faceless_carl:
  "os_walk_dirs corpus_bob_faceless_carl =
     [(''bob_1'', [File ''a.jpg'' (Some [[0]])]),
      (''carl_3'', [File ''c.png'' (Some [[1]])])]"
  by (simp add: os_walk_dirs_flat corpus_bob_faceless_carl_def)

lemma parse_bob: "parse_dir_name ascii_title ''bob_1'' = bob"
  by (simp add: str_eval bob_def)

lemma parse_alice: "parse_dir_name ascii_title ''alice_2'' = alice"
  by (simp add: str_eval alice_def)

lemma parse_carl: "parse_dir_name ascii_title ''carl_3'' = carl"
  by (simp add: str_eval carl_def)

lemma image_names:
  "endswith_any (lower ''a.jpg'') image_extensions"
  "endswith_any (lower ''b.jpg'') image_extensions"
  "endswith_any (lower ''c.png'') image_extensions"
  by (simp_all add: endswith_any_def endswith_def lower_def image_extensions_def to_lower_def
        uppers_def lowers_def)

lemmas train_eval = train_model_def scan_corpus_def process_group_def process_file_def
  resolve_label_def find_label_def training_on_def toy_detect_def log_to_def Let_def
  parse_bob parse_alice parse_carl image_names bob_def alice_def carl_def initial_world_def

lemma run_faceless_bob:
  "train_model (training_on corpus_bob_faceless) initial_world = (after_faceless_bob, False)"
  by (simp add: train_eval walk_bob_faceless after_faceless_bob_def)

lemma run_bob:
  "snd (train_model (training_on corpus_bob) after_faceless_bob) = True
   \<and> labels_map (fst (train_model (training_on corpus_bob) after_faceless_bob)) = [(0, bob)]
   \<and> next_label_id (fst (train_model (training_on corpus_bob) after_faceless_bob)) = 0
   \<and> face_recognizer (fst (train_model (training_on corpus_bob) after_faceless_bob)) =
        [(([[1]], (0, 0, 40, 40)), 0)]"
  by (simp add: train_eval walk_bob after_faceless_bob_def)


theorem training_image_contribution_witness:
  "snd (train_model (training_on corpus_alice_bob) initial_world)
   \<and> filter (usable toy_detect) (concat (map snd (os_walk_dirs corpus_alice_bob))) =
       [File ''c.png'' (Some [[1]]), File ''b.jpg'' (Some [[1]])]
   \<and> filter (skipped toy_detect) (concat (map snd (os_walk_dirs corpus_alice_bob))) =
       [File ''a.jpg'' (Some [[0]])]
   \<and> face_recognizer (fst (train_model (training_on corpus_alice_bob) initial_world)) =
       [(([[1]], (0, 0, 40, 40)), 0), (([[1]], (0, 0, 40, 40)), 1)]
   \<and> filter is_skipping
        (logging (fst (train_model (training_on corpus_alice_bob) initial_world))) =
       [Skipping ''a.jpg'' 0]"
proof -
  have ok: "snd (train_model (training_on corpus_alice_bob) initial_world)"
    by (simp add: train_eval walk_alice_bob)
  have u: "filter (usable toy_detect) (concat (map snd (os_walk_dirs corpus_alice_bob))) =
       [File ''c.png'' (Some [[1]]), File ''b.jpg'' (Some [[1]])]"
    by (simp add: walk_alice_bob usable_def is_training_image_def faces_found_def
          toy_detect_def image_names)
  have k: "filter (skipped toy_detect) (concat (map snd (os_walk_dirs corpus_alice_bob))) =
       [File ''a.jpg'' (Some [[0]])]"
    by (simp add: walk_alice_bob skipped_def is_training_image_def faces_found_def
          toy_detect_def image_names)
  let ?acc = "scan_corpus (training_on corpus_alice_bob) (log_to ScanningTrainingDir initial_world)"
  have z: "face_recognizer (fst (train_model (training_on corpus_alice_bob) initial_world)) =
      zip (images ?acc) (labels ?acc)"
    using ok training_image_contribution
      [where env = "training_on corpus_alice_bob" and w = initial_world]
    by blast
  have a: "images ?acc = [([[1]], (0, 0, 40, 40)), ([[1]], (0, 0, 40, 40))]
      \<and> labels ?acc = [0, 1]"
    by (simp add: train_eval walk_alice_bob)
  have f: "face_recognizer (fst (train_model (training_on corpus_alice_bob) initial_world)) =
       [(([[1]], (0, 0, 40, 40)), 0), (([[1]], (0, 0, 40, 40)), 1)]"
    using z a by simp
  have s: "filter is_skipping
        (logging (fst (train_model (training_on corpus_alice_bob) initial_world))) =
       [Skipping ''a.jpg'' 0]"
    by (simp add: train_eval walk_alice_bob)
  from ok u k f s show ?thesis
    by simp
qed

text \<open>
  Both cases on examples. After the failed training on
  \<open>corpus_bob_faceless\<close> the registry holds Bob and the recognizer is untrained: a scan
  that detects one face answers with status 500. In \<open>enrolled_world\<close> a scan that
  detects three faces answers with the three decisions.
\<close>

theorem scan_classifies_detected_faces_witness:
  "train_model (training_on corpus_bob_faceless) initial_world = (after_faceless_bob, False)
   \<and> model_check (example_scan [(0, 0, 40, 40)]) after_faceless_bob
       = (log_to ScanRequest after_faceless_bob, True)
   \<and> face_recognizer (log_to ScanRequest after_faceless_bob) = []
   \<and> snd (scan_image_endpoint (example_scan [(0, 0, 40, 40)]) after_faceless_bob)
       = ScanFailed Cv2Error
   \<and> status_code (snd (scan_image_endpoint (example_scan [(0, 0, 40, 40)]) after_faceless_bob))
       = 500
   \<and> snd (scan_image_endpoint
             (example_scan [(0, 0, 40, 40), (50, 0, 40, 40), (0, 50, 40, 40)]) enrolled_world)
       = Results [Recognized ''Bob'' ''1'', Unknown 95, Unknown 10]"
proof -
  let ?one = "example_scan [(0, 0, 40, 40)]"
  let ?three = "example_scan [(0, 0, 40, 40), (50, 0, 40, 40), (0, 50, 40, 40)]"
  have run: "train_model (training_on corpus_bob_faceless) initial_world
               = (after_faceless_bob, False)"
    by (rule run_faceless_bob)
  have u1: "upload ?one = Some (Frame [[7]])" and d1: "\<not> detector_empty (training ?one)"
    by (simp_all add: example_scan_def idle_training_def)
  have m1: "model_check ?one after_faceless_bob = (log_to ScanRequest after_faceless_bob, True)"
    by (simp add: model_check_def after_faceless_bob_def initial_world_def log_to_def)
  have f1: "list_ex (\<lambda>(x, y, bw, bh). x \<noteq> 0 \<or> y \<noteq> 0 \<or> bw \<noteq> 0 \<or> bh \<noteq> 0)
              (detect_scan ?one [[7]])"
    by (simp add: example_scan_def)
  have e1: "face_recognizer (log_to ScanRequest after_faceless_bob) = []"
    by (simp add: after_faceless_bob_def initial_world_def log_to_def)
  have bad: "snd (scan_image_endpoint ?one after_faceless_bob) = ScanFailed Cv2Error"
    using scan_classifies_detected_faces [OF u1 d1 m1 f1] e1 by simp
  have u3: "upload ?three = Some (Frame [[7]])" and d3: "\<not> detector_empty (training ?three)"
    by (simp_all add: example_scan_def idle_training_def)
  have m3: "model_check ?three enrolled_world = (log_to ScanRequest enrolled_world, True)"
    by (simp add: model_check_def enrolled_world_def initial_world_def log_to_def)
  have f3: "list_ex (\<lambda>(x, y, bw, bh). x \<noteq> 0 \<or> y \<noteq> 0 \<or> bw \<noteq> 0 \<or> bh \<noteq> 0)
              (detect_scan ?three [[7]])"
    by (simp add: example_scan_def)
  have good: "snd (scan_image_endpoint ?three enrolled_world)
                = Results [Recognized ''Bob'' ''1'', Unknown 95, Unknown 10]"
    using scan_classifies_detected_faces [OF u3 d3 m3 f3]
    by (simp add: face_outcome_def example_scan_def toy_predict_def enrolled_world_def
          initial_world_def log_to_def dict_get_def bob_def py_int_def)
  from run m1 e1 bad good show ?thesis
    by simp
qed

text \<open>
  C8, as amended. After a training that returns \<^verbatim>\<open>True\<close>, every label of the
  recognizer's trained set has an entry in the registry; a training that returns
  \<^verbatim>\<open>False\<close> keeps that inclusion when it held before the call.
\<close>

theorem trained_labels_registered:
  assumes "snd (train_model env w) \<or> trained_labels w \<subseteq> registry_labels w"
  shows "trained_labels (fst (train_model env w)) \<subseteq> registry_labels (fst (train_model env w))"
proof -
  let ?w0 = "log_to ScanningTrainingDir w"
  let ?acc = "scan_corpus env ?w0"
  have z: "snd ` set (zip (images ?acc) (labels ?acc)) \<subseteq> set (dict_keys (reg ?acc))"
    using scan_corpus_inv [of env ?w0] by (auto dest: set_zip_rightD)
  have k: "set (dict_keys (labels_map w)) \<subseteq> set (dict_keys (reg ?acc))"
    using scan_corpus_inv [of env ?w0] by (simp add: log_to_def)
  show ?thesis
    using assms z k
    by (auto simp: train_model_def Let_def log_to_def trained_labels_def registry_labels_def
             split: if_splits)
qed


theorem trained_labels_registered_witness:
  "snd (train_model (training_on corpus_alice_bob_faceless) initial_world)
   \<and> trained_labels (fst (train_model (training_on corpus_alice_bob_faceless) initial_world))
       \<subseteq> registry_labels (fst (train_model (training_on corpus_alice_bob_faceless) initial_world))
   \<and> trained_labels (fst (train_model (training_on corpus_alice_bob_faceless) initial_world)) = {0}"
proof -
  have ok: "snd (train_model (training_on corpus_alice_bob_faceless) initial_world)"
    by (simp add: train_eval walk_alice_bob_faceless)
  then have h: "snd (train_model (training_on corpus_alice_bob_faceless) initial_world)
      \<or> trained_labels initial_world \<subseteq> registry_labels initial_world"
    by simp
  have t: "trained_labels (fst (train_model (training_on corpus_alice_bob_faceless) initial_world)) = {0}"
    by (simp add: train_eval walk_alice_bob_faceless trained_labels_def)
  from ok trained_labels_registered [OF h] t show ?thesis
    by simp
qed

text \<open>
  C8 as stated fails in the other direction: a group whose only image shows no face gets
  its registry entry and no sample, so after a successful training label 1 is in the
  registry and not in the trained set.
\<close>

theorem registry_label_without_sample:
  "snd (train_model (training_on corpus_alice_bob_faceless) initial_world) = True
   \<and> 1 \<in> registry_labels (fst (train_model (training_on corpus_alice_bob_faceless) initial_world))
   \<and> 1 \<notin> trained_labels (fst (train_model (training_on corpus_alice_bob_faceless) initial_world))"
  by (simp add: train_eval walk_alice_bob_faceless registry_labels_def trained_labels_def
        dict_keys_def)

text \<open>
  C4 fails on the code. A training that finds no usable sample returns \<^verbatim>\<open>False\<close>
  and leaves both files and \<^verbatim>\<open>next_label_id\<close> as they were, but the loop has
  already written the entries of the groups it met into \<^verbatim>\<open>labels_map\<close>: the
  registry in memory goes from empty to one entry.
\<close>

theorem failed_training_alters_registry:
  "images (scan_corpus (training_on corpus_bob_faceless)
             (log_to ScanningTrainingDir initial_world)) = []
   \<and> snd (train_model (training_on corpus_bob_faceless) initial_world) = False
   \<and> labels_map initial_world = []
   \<and> labels_map (fst (train_model (training_on corpus_bob_faceless) initial_world)) = [(0, bob)]
   \<and> next_label_id (fst (train_model (training_on corpus_bob_faceless) initial_world)) = 0
   \<and> model_file (fst (train_model (training_on corpus_bob_faceless) initial_world)) = None
   \<and> labels_file (fst (train_model (training_on corpus_bob_faceless) initial_world)) = None"
  by (simp add: train_eval walk_bob_faceless)

text \<open>
  C7 fails on the code. After the failed training above \<^verbatim>\<open>labels_map\<close> holds
  label 0 for Bob while \<^verbatim>\<open>next_label_id\<close> is still 0. The next training meets the
  new identity Carl and gives him \<^verbatim>\<open>current_id = 0\<close>, not the maximum label plus
  one, and the assignment replaces Bob's entry: label 0 now names a different identity.
\<close>

theorem label_reassigned_after_failed_training:
  "train_model (training_on corpus_bob_faceless) initial_world = (after_faceless_bob, False)
   \<and> dict_get (labels_map after_faceless_bob) 0 = Some bob
   \<and> next_after (labels_map after_faceless_bob) = 1
   \<and> find_label (labels_map after_faceless_bob) carl = None
   \<and> snd (train_model (training_on corpus_bob_faceless_carl) after_faceless_bob) = True
   \<and> labels_map (fst (train_model (training_on corpus_bob_faceless_carl) after_faceless_bob))
       = [(0, carl)]"
  by (simp add: train_eval walk_bob_faceless walk_bob_faceless_carl after_faceless_bob_def
        dict_get_def next_after_def dict_keys_def)

text \<open>
  C3 fails on the code. After the failed training, a training on Bob's folder with a usable
  photo succeeds and resolves Bob to label 0, and leaves \<^verbatim>\<open>next_label_id\<close> at 0.
  The next training meets Alice first, gives her label 0 in place of Bob, and then resolves
  Bob, who is no longer found, to label 1: the second resolution of the same pair returns a
  different label.
\<close>

theorem second_resolution_differs:
  "train_model (training_on corpus_bob_faceless) initial_world = (after_faceless_bob, False)
   \<and> snd (train_model (training_on corpus_bob) after_faceless_bob) = True
   \<and> find_label
        (labels_map (fst (train_model (training_on corpus_bob) after_faceless_bob))) bob = Some 0
   \<and> snd (train_model (training_on corpus_alice_bob)
             (fst (train_model (training_on corpus_bob) after_faceless_bob))) = True
   \<and> find_label
        (labels_map (fst (train_model (training_on corpus_alice_bob)
           (fst (train_model (training_on corpus_bob) after_faceless_bob))))) bob = Some 1"
  by (simp add: train_eval walk_bob_faceless walk_bob walk_alice_bob after_faceless_bob_def)

end
